theory Spec2Isabelle
  imports Main "HOL-Library.AList"
begin

section \<open>Python values\<close>

text \<open>
  A Python \<open>str\<close> is a sequence of Unicode code points: slicing (\<open>s[:50]\<close>) and \<open>len\<close>
  count code points, and the literals of \<open>main.py\<close> hold code points above 255, so a
  string is a list of code-point numbers. \<open>ascii\<close> embeds an ASCII literal.
\<close>

type_synonym pystr = "nat list"

definition ascii :: "string \<Rightarrow> pystr" where
  "ascii s = map of_char s"

text \<open>The four non-ASCII code points of \<open>main.py\<close>: U+2705, U+274C, U+26A0, U+FE0F.\<close>

definition check_mark :: nat where "check_mark = 0x2705"
definition cross_mark :: nat where "cross_mark = 0x274C"
definition warning_sign :: nat where "warning_sign = 0x26A0"
definition variation_selector :: nat where "variation_selector = 0xFE0F"

text \<open>
  The values the handlers build and read. \<open>PyUndefined\<close> is pydantic's
  \<open>PydanticUndefined\<close> sentinel, the \<open>default\<close> of a field declared without one.
\<close>

datatype pyval =
    PyNone
  | PyBool bool
  | PyInt int
  | PyStr pystr
  | PyList "pyval list"
  | PyDict "(pystr \<times> pyval) list"
  | PyUndefined

text \<open>
  A \<open>dict\<close> keeps insertion order and \<open>d[k] = v\<close> replaces the value of a key already
  present in place, appending otherwise: \<open>AList.update\<close>. \<open>d.get(k)\<close> is \<open>map_of\<close>.
\<close>

type_synonym pydict = "(pystr \<times> pyval) list"

definition setitem :: "pystr \<Rightarrow> pyval \<Rightarrow> pydict \<Rightarrow> pydict" where
  "setitem k v d = AList.update k v d"

definition getitem :: "pyval \<Rightarrow> pystr \<Rightarrow> pyval option" where
  "getitem d k = (case d of PyDict kvs \<Rightarrow> map_of kvs k | _ \<Rightarrow> None)"

definition keys :: "pyval \<Rightarrow> pystr list" where
  "keys d = (case d of PyDict kvs \<Rightarrow> map fst kvs | _ \<Rightarrow> [])"

text \<open>
  What a collaborator can raise, told apart by the classes the source tells apart:
  \<open>ImportError\<close> (of which \<open>ModuleNotFoundError\<close> is a subclass), \<open>AttributeError\<close>
  (which \<open>hasattr\<close> swallows), any other instance of \<open>Exception\<close>, and the instances of
  \<open>BaseException\<close> that are not instances of \<open>Exception\<close> (\<open>SystemExit\<close>,
  \<open>KeyboardInterrupt\<close>, \<open>GeneratorExit\<close>, \<open>asyncio.CancelledError\<close>), which
  \<open>except Exception\<close> does not catch. Each carries the text \<open>str(e)\<close> gives.
\<close>

datatype py_exc =
    ImportError pystr
  | AttributeError pystr
  | OtherException pystr
  | NonException pystr

fun exc_str :: "py_exc \<Rightarrow> pystr" where
  "exc_str (ImportError m) = m"
| "exc_str (AttributeError m) = m"
| "exc_str (OtherException m) = m"
| "exc_str (NonException m) = m"

text \<open>\<open>isinstance(e, ImportError)\<close> and \<open>isinstance(e, Exception)\<close>.\<close>

fun is_ImportError :: "py_exc \<Rightarrow> bool" where
  "is_ImportError (ImportError m) = True"
| "is_ImportError e = False"

fun is_Exception :: "py_exc \<Rightarrow> bool" where
  "is_Exception (NonException m) = False"
| "is_Exception e = True"

text \<open>\<open>os.getenv(k)\<close> is the value or \<open>None\<close>; a \<open>str\<close> is truthy when it is not empty.\<close>

type_synonym environ = "pystr \<rightharpoonup> pystr"

definition getenv :: "environ \<Rightarrow> pystr \<Rightarrow> pystr option" where
  "getenv env k = env k"

fun truthy :: "pystr option \<Rightarrow> bool" where
  "truthy None = False"
| "truthy (Some s) = (s \<noteq> [])"

section \<open>The static handlers\<close>

definition read_root :: "py_exc + pyval" where
  "read_root = Inr (PyDict [(ascii ''message'', PyStr (ascii ''Hello from FastAPI Backend!''))])"

definition hello :: "py_exc + pyval" where
  "hello = Inr (PyDict [(ascii ''message'', PyStr (ascii ''Hello from the backend API!''))])"

section \<open>The database probe\<close>

text \<open>
  The database collaborator. \<open>from database import db\<close> either raises or binds \<open>db\<close>, which
  is \<open>None\<close> or a handle. Of a handle the probe reads the attribute \<open>name\<close> (the lookup
  gives a value or raises; an absent attribute raises \<open>AttributeError\<close>) and calls
  \<open>list_collection_names()\<close> (a list of names, or an exception).
\<close>

record db_handle =
  name_attr :: "py_exc + pyval"
  list_collection_names :: "py_exc + pystr list"

type_synonym db_import = "py_exc + db_handle option"

text \<open>\<open>hasattr(db, 'name')\<close>: false on \<open>AttributeError\<close>, any other exception propagates.\<close>

definition hasattr_name :: "db_handle \<Rightarrow> py_exc + bool" where
  "hasattr_name db =
     (case name_attr db of
        Inr v \<Rightarrow> Inr True
      | Inl (AttributeError m) \<Rightarrow> Inr False
      | Inl e \<Rightarrow> Inl e)"

definition initial_response :: pydict where
  "initial_response =
     [(ascii ''backend'', PyStr (check_mark # ascii '' Running'')),
      (ascii ''database'', PyStr (cross_mark # ascii '' Not Available'')),
      (ascii ''database_url'', PyNone),
      (ascii ''database_name'', PyNone),
      (ascii ''connection_status'', PyStr (ascii ''Not Connected'')),
      (ascii ''collections'', PyList [])]"

text \<open>
  The inner \<open>try\<close> (lines 50 to 55): both assignments happen after the call, so a raising
  call leaves \<open>collections\<close> as it was. Its \<open>except Exception\<close> catches the instances of
  \<open>Exception\<close>; anything else leaves the inner \<open>try\<close>.
\<close>

definition list_collections :: "db_handle \<Rightarrow> pydict \<Rightarrow> py_exc option \<times> pydict" where
  "list_collections db response =
     (case list_collection_names db of
        Inr collections \<Rightarrow>
          (None,
           setitem (ascii ''database'') (PyStr (check_mark # ascii '' Connected & Working''))
             (setitem (ascii ''collections'') (PyList (map PyStr (take 10 collections))) response))
      | Inl e \<Rightarrow>
          if is_Exception e then
            (None,
             setitem (ascii ''database'')
               (PyStr ([warning_sign, variation_selector] @ ascii ''  Connected but Error: ''
                       @ take 50 (exc_str e))) response)
          else (Some e, response))"

text \<open>
  The body of the outer \<open>try\<close> (lines 41 to 57). The response dictionary is mutated in
  place, so an exception leaves the assignments made before it: the body returns the
  dictionary together with the exception that left it, if any.
\<close>

definition try_body :: "db_import \<Rightarrow> pydict \<Rightarrow> py_exc option \<times> pydict" where
  "try_body imp response =
     (case imp of
        Inl e \<Rightarrow> (Some e, response)
      | Inr None \<Rightarrow>
          (None, setitem (ascii ''database'')
                   (PyStr ([warning_sign, variation_selector]
                           @ ascii ''  Available but not initialized'')) response)
      | Inr (Some db) \<Rightarrow>
          (let r1 = setitem (ascii ''database'') (PyStr (check_mark # ascii '' Available'')) response;
               r2 = setitem (ascii ''database_url'') (PyStr (check_mark # ascii '' Configured'')) r1
           in case hasattr_name db of
                Inl e \<Rightarrow> (Some e, r2)
              | Inr has \<Rightarrow>
                  (case (if has then name_attr db
                         else Inr (PyStr (check_mark # ascii '' Connected''))) of
                     Inl e \<Rightarrow> (Some e, r2)
                   | Inr nm \<Rightarrow>
                       (let r3 = setitem (ascii ''database_name'') nm r2;
                            r4 = setitem (ascii ''connection_status'') (PyStr (ascii ''Connected'')) r3
                        in list_collections db r4))))"

text \<open>
  The two \<open>except\<close> clauses of the outer \<open>try\<close>, in the source's order; an exception that
  is an instance of neither class leaves the handler.
\<close>

definition except_clauses :: "py_exc option \<times> pydict \<Rightarrow> py_exc option \<times> pydict" where
  "except_clauses st =
     (case st of
        (None, response) \<Rightarrow> (None, response)
      | (Some e, response) \<Rightarrow>
          if is_ImportError e then
            (None, setitem (ascii ''database'')
                     (PyStr (cross_mark
                             # ascii '' Database module not found (run enable-database first)''))
                     response)
          else if is_Exception e then
            (None, setitem (ascii ''database'')
                     (PyStr (cross_mark # ascii '' Error: '' @ take 50 (exc_str e))) response)
          else (Some e, response))"

definition set_or_not :: "pystr option \<Rightarrow> pyval" where
  "set_or_not v = (if truthy v then PyStr (check_mark # ascii '' Set'')
                   else PyStr (cross_mark # ascii '' Not Set''))"

definition check_environment :: "environ \<Rightarrow> pydict \<Rightarrow> pydict" where
  "check_environment env response =
     setitem (ascii ''database_name'') (set_or_not (getenv env (ascii ''DATABASE_NAME'')))
       (setitem (ascii ''database_url'') (set_or_not (getenv env (ascii ''DATABASE_URL''))) response)"

text \<open>
  The handler: when an exception leaves the \<open>try\<close> statement the handler raises it, and
  lines 64 to 69 do not run.
\<close>

definition test_database :: "environ \<Rightarrow> db_import \<Rightarrow> py_exc + pyval" where
  "test_database env imp =
     (case except_clauses (try_body imp initial_response) of
        (Some e, response) \<Rightarrow> Inl e
      | (None, response) \<Rightarrow> Inr (PyDict (check_environment env response)))"

section \<open>Schema reflection\<close>

text \<open>
  What \<open>get_schema\<close> reads of a pydantic \<open>FieldInfo\<close>: \<open>str(f.annotation)\<close>, the default
  (\<open>PyUndefined\<close> when none is declared), whether a \<open>default_factory\<close> is declared, and
  the description.
\<close>

record field_info =
  annotation_str :: pystr
  default_value :: pyval
  has_default_factory :: bool
  description :: "pystr option"

text \<open>
  pydantic's \<open>FieldInfo.is_required()\<close>:
  \<open>self.default is PydanticUndefined and self.default_factory is None\<close>.
\<close>

definition is_required :: "field_info \<Rightarrow> bool" where
  "is_required f = (default_value f = PyUndefined \<and> \<not> has_default_factory f)"

text \<open>
  A class object: \<open>__name__\<close>, \<open>__module__\<close>, whether \<open>issubclass(obj, BaseModel)\<close> holds,
  and \<open>model_fields\<close> in declaration order. \<open>inspect.getmembers(module)\<close> gives the pairs
  of an attribute name of the module and the object bound to it.
\<close>

record py_class =
  cls_name :: pystr
  cls_module :: pystr
  is_basemodel :: bool
  model_fields :: "(pystr \<times> field_info) list"

datatype py_obj = Class py_class | NotAClass

record py_module =
  mod_name :: pystr
  getmembers :: "(pystr \<times> py_obj) list"

type_synonym schemas_import = "py_exc + py_module"

text \<open>The body of the inner loop (lines 88 to 100): the dictionary appended for one field.\<close>

definition field_entry :: "pystr \<times> field_info \<Rightarrow> pyval" where
  "field_entry nf =
     (case nf of (fname, f) \<Rightarrow>
        (let field_type = annotation_str f;
             required = is_required f;
             default = (if required then PyNone
                        else (if default_value f \<noteq> PyNone then default_value f else PyNone));
             descr = (if truthy (description f) then PyStr (the (description f)) else PyNone)
         in PyDict [(ascii ''name'', PyStr fname),
                    (ascii ''type'', PyStr field_type),
                    (ascii ''required'', PyBool required),
                    (ascii ''default'', default),
                    (ascii ''description'', descr)]))"

text \<open>The filter of line 84.\<close>

fun is_exposed :: "pystr \<Rightarrow> py_obj \<Rightarrow> bool" where
  "is_exposed m NotAClass = False"
| "is_exposed m (Class c) = (is_basemodel c \<and> cls_module c = m)"

text \<open>
  The outer loop (lines 83 to 106): \<open>name\<close> is the attribute name \<open>getmembers\<close> gives,
  and \<open>class_entry\<close> the dictionary stored under it. \<open>lower\<close> is \<open>str.lower\<close>, a built-in
  of the language, taken as a parameter.
\<close>

definition class_entry :: "(pystr \<Rightarrow> pystr) \<Rightarrow> pystr \<Rightarrow> py_class \<Rightarrow> pyval" where
  "class_entry lower name model =
     PyDict [(ascii ''collection'', PyStr (lower name)),
             (ascii ''title'', PyStr name),
             (ascii ''fields'', PyList (map field_entry (model_fields model)))]"

fun collect :: "(pystr \<Rightarrow> pystr) \<Rightarrow> pystr \<Rightarrow> (pystr \<times> py_obj) list \<Rightarrow> pydict \<Rightarrow> pydict" where
  "collect lower m [] definitions = definitions"
| "collect lower m ((name, obj) # rest) definitions =
     collect lower m rest
       (case obj of
          Class model \<Rightarrow>
            if is_exposed m obj then setitem name (class_entry lower name model) definitions
            else definitions
        | NotAClass \<Rightarrow> definitions)"

definition get_schema :: "(pystr \<Rightarrow> pystr) \<Rightarrow> schemas_import \<Rightarrow> py_exc + pyval" where
  "get_schema lower imp =
     (case imp of
        Inl e \<Rightarrow>
          if is_Exception e then
            Inr (PyDict [(ascii ''error'',
                          PyStr (ascii ''Unable to import schemas: '' @ exc_str e))])
          else Inl e
      | Inr schemas_module \<Rightarrow>
          Inr (PyDict [(ascii ''schemas'',
                 PyDict (collect lower (mod_name schemas_module) (getmembers schemas_module) []))]))"

text \<open>\<open>str.lower\<close> on a string of ASCII code points.\<close>

definition ascii_lower :: "pystr \<Rightarrow> pystr" where
  "ascii_lower s = map (\<lambda>c. if 65 \<le> c \<and> c \<le> 90 then c + 32 else c) s"

section \<open>The application\<close>

text \<open>
  What a request can observe: the process environment and the two collaborators, as
  the imports inside the handlers find them.
\<close>

record world =
  environ :: environ
  database :: db_import
  schemas :: schemas_import

datatype http_response = Response (status: nat) (body: pyval)

text \<open>
  The framework answers 200 with the handler's return value, and 500 when the handler
  raises.
\<close>

fun respond :: "py_exc + pyval \<Rightarrow> http_response" where
  "respond (Inr v) = Response 200 v"
| "respond (Inl e) = Response 500 (PyStr (ascii ''Internal Server Error''))"

text \<open>The four \<open>@app.get\<close> routes; any other path is 404.\<close>

definition app_get :: "(pystr \<Rightarrow> pystr) \<Rightarrow> world \<Rightarrow> string \<Rightarrow> http_response" where
  "app_get lower w path =
     (if path = ''/'' then respond read_root
      else if path = ''/api/hello'' then respond hello
      else if path = ''/test'' then respond (test_database (environ w) (database w))
      else if path = ''/schema'' then respond (get_schema lower (schemas w))
      else Response 404 (PyDict [(ascii ''detail'', PyStr (ascii ''Not Found''))]))"

section \<open>The entry point\<close>

text \<open>
  Line 113: \<open>int(os.getenv("PORT", 8000))\<close>. \<open>int_of\<close> is the built-in \<open>int\<close> on a \<open>str\<close>,
  taken as a parameter; \<open>None\<close> is its \<open>ValueError\<close>. The default \<open>8000\<close> is already an
  \<open>int\<close>.
\<close>

definition listening_port :: "(pystr \<Rightarrow> int option) \<Rightarrow> environ \<Rightarrow> py_exc + int" where
  "listening_port int_of env =
     (case getenv env (ascii ''PORT'') of
        None \<Rightarrow> Inr 8000
      | Some s \<Rightarrow>
          (case int_of s of
             None \<Rightarrow> Inl (OtherException (ascii ''invalid literal for int() with base 10''))
           | Some n \<Rightarrow> Inr n))"

text \<open>\<open>int\<close> on a non-empty string of ASCII decimal digits.\<close>

definition digits_value :: "pystr \<Rightarrow> int option" where
  "digits_value s =
     (if s \<noteq> [] \<and> list_all (\<lambda>c. 48 \<le> c \<and> c \<le> 57) s
      then Some (foldl (\<lambda>acc c. 10 * acc + int (c - 48)) 0 s)
      else None)"

section \<open>Observations and sample inputs\<close>

text \<open>The value a response body holds under a key.\<close>

definition field :: "http_response \<Rightarrow> string \<Rightarrow> pyval option" where
  "field r k = getitem (body r) (ascii k)"


text \<open>
  A \<open>schemas.py\<close> that declares one model and binds it under a second name:
  \<^verbatim>\<open>
  from pydantic import BaseModel, Field

  class User(BaseModel):
      email: str = Field(..., description="Email address")
      is_active: bool = True

  Account = User
  \<close>
  with its members as \<open>inspect.getmembers\<close> lists them, sorted by name.
\<close>

definition user_model :: py_class where
  "user_model =
     \<lparr>cls_name = ascii ''User'', cls_module = ascii ''schemas'', is_basemodel = True,
      model_fields =
        [(ascii ''email'',
          \<lparr>annotation_str = ascii ''<class 'str'>'', default_value = PyUndefined,
           has_default_factory = False, description = Some (ascii ''Email address'')\<rparr>),
         (ascii ''is_active'',
          \<lparr>annotation_str = ascii ''<class 'bool'>'', default_value = PyBool True,
           has_default_factory = False, description = None\<rparr>)]\<rparr>"

definition pydantic_BaseModel :: py_class where
  "pydantic_BaseModel =
     \<lparr>cls_name = ascii ''BaseModel'', cls_module = ascii ''pydantic.main'',
      is_basemodel = True, model_fields = []\<rparr>"

definition aliased_schemas :: py_module where
  "aliased_schemas =
     \<lparr>mod_name = ascii ''schemas'',
      getmembers = [(ascii ''Account'', Class user_model),
                    (ascii ''BaseModel'', Class pydantic_BaseModel),
                    (ascii ''Field'', NotAClass),
                    (ascii ''User'', Class user_model),
                    (ascii ''__builtins__'', NotAClass),
                    (ascii ''__cached__'', NotAClass),
                    (ascii ''__doc__'', NotAClass),
                    (ascii ''__file__'', NotAClass),
                    (ascii ''__loader__'', NotAClass),
                    (ascii ''__name__'', NotAClass),
                    (ascii ''__package__'', NotAClass),
                    (ascii ''__spec__'', NotAClass)]\<rparr>"

text \<open>A handle that works and reports twelve collections, and one whose listing raises.\<close>

definition working_db :: db_handle where
  "working_db =
     \<lparr>name_attr = Inr (PyStr (ascii ''appdb'')),
      list_collection_names =
        Inr (map ascii [''c01'', ''c02'', ''c03'', ''c04'', ''c05'', ''c06'',
                        ''c07'', ''c08'', ''c09'', ''c10'', ''c11'', ''c12''])\<rparr>"

definition broken_db :: db_handle where
  "broken_db =
     \<lparr>name_attr = Inl (AttributeError (ascii ''name'')),
      list_collection_names = Inl (OtherException (ascii ''connection refused''))\<rparr>"

text \<open>
  A handle whose listing is interrupted by an exception outside \<open>Exception\<close>, and a
  \<open>database.py\<close> or \<open>schemas.py\<close> that calls \<open>sys.exit(1)\<close> when it is imported.
\<close>

definition interrupted_db :: db_handle where
  "interrupted_db =
     \<lparr>name_attr = Inr (PyStr (ascii ''appdb'')),
      list_collection_names = Inl (NonException (ascii ''KeyboardInterrupt''))\<rparr>"

definition exits_on_import :: py_exc where
  "exits_on_import = NonException (ascii ''1'')"

section \<open>Basic facts\<close>

lemma ascii_eq_iff [simp]: "ascii s = ascii t \<longleftrightarrow> s = t"
  unfolding ascii_def by (simp add: inj_map_eq_map inj_of_char)

lemma getitem_PyDict [simp]: "getitem (PyDict kvs) k = map_of kvs k"
  by (simp add: getitem_def)

lemma keys_PyDict [simp]: "keys (PyDict kvs) = map fst kvs"
  by (simp add: keys_def)

lemma map_of_setitem [simp]:
  "map_of (setitem k v d) k' = (if k' = k then Some v else map_of d k')"
  by (simp add: setitem_def update_conv')

lemmas probe_defs = test_database_def except_clauses_def try_body_def check_environment_def
  list_collections_def hasattr_name_def set_or_not_def getenv_def

lemmas sample_defs = working_db_def broken_db_def interrupted_db_def exits_on_import_def

text \<open>
  The handler either raises an exception that is not an instance of \<open>Exception\<close>, or
  returns the dictionary the environment check has written last.
\<close>

lemma test_database_cases:
  "(\<exists>e. test_database env imp = Inl e \<and> \<not> is_Exception e) \<or>
   (\<exists>r. test_database env imp = Inr (PyDict (check_environment env r)))"
proof (cases "try_body imp initial_response")
  case (Pair x r)
  show ?thesis
  proof (cases x)
    case None
    with Pair have "test_database env imp = Inr (PyDict (check_environment env r))"
      by (simp add: test_database_def except_clauses_def)
    then show ?thesis by blast
  next
    case (Some e)
    with Pair show ?thesis by (auto simp: test_database_def except_clauses_def)
  qed
qed

lemma app_get_test:
  "app_get lower w ''/test'' = respond (test_database (environ w) (database w))"
  by (simp add: app_get_def)

lemma status_200_returns:
  assumes "status (app_get lower w ''/test'') = 200"
  shows "\<exists>r. except_clauses (try_body (database w) initial_response) = (None, r) \<and>
             test_database (environ w) (database w) =
               Inr (PyDict (check_environment (environ w) r))"
proof (cases "except_clauses (try_body (database w) initial_response)")
  case (Pair x r)
  show ?thesis
  proof (cases x)
    case None
    with Pair show ?thesis by (simp add: test_database_def)
  next
    case (Some e)
    with Pair have "test_database (environ w) (database w) = Inl e"
      by (simp add: test_database_def)
    with assms show ?thesis by (simp add: app_get_test)
  qed
qed



text \<open>
  An entry of the dictionary the outer loop returns was there at the start or was stored
  for a member that passes the filter.
\<close>

lemma collect_entry:
  "map_of (collect lower m ms d) n = Some e \<Longrightarrow>
     map_of d n = Some e \<or>
     (\<exists>model. (n, Class model) \<in> set ms \<and> is_exposed m (Class model) \<and>
        e = class_entry lower n model)"
proof (induction ms arbitrary: d)
  case Nil
  then show ?case by simp
next
  case (Cons p ms)
  obtain name obj where p: "p = (name, obj)" by (cases p)
  define d' where "d' = (case obj of
          Class model \<Rightarrow>
            if is_exposed m obj then setitem name (class_entry lower name model) d
            else d
        | NotAClass \<Rightarrow> d)"
  from Cons.prems have "map_of (collect lower m ms d') n = Some e"
    by (simp add: p d'_def)
  from Cons.IH [OF this] consider
    (old) "map_of d' n = Some e" |
    (new) model where "(n, Class model) \<in> set ms" "is_exposed m (Class model)"
      "e = class_entry lower n model"
    by blast
  then show ?case
  proof cases
    case old
    then show ?thesis
      unfolding d'_def p by (cases obj) (auto split: if_splits)
  next
    case new
    then show ?thesis by auto
  qed
qed

lemma schema_entry:
  assumes "get_schema lower (Inr m) = Inr r"
    and "getitem r (ascii ''schemas'') = Some defs"
    and "getitem defs n = Some e"
  shows "\<exists>model. (n, Class model) \<in> set (getmembers m) \<and>
           is_exposed (mod_name m) (Class model) \<and> e = class_entry lower n model"
proof -
  from assms(1,2) have "defs = PyDict (collect lower (mod_name m) (getmembers m) [])"
    by (auto simp: get_schema_def)
  with assms(3) have "map_of (collect lower (mod_name m) (getmembers m) []) n = Some e"
    by simp
  from collect_entry [OF this] show ?thesis by simp
qed

lemma field_entry_required:
  "getitem (field_entry nf) (ascii ''required'') = Some (PyBool (is_required (snd nf)))"
  by (cases nf) (simp add: field_entry_def Let_def)

section \<open>Properties of the static routes\<close>

text \<open>
  C5. \<open>GET /\<close> and \<open>GET /api/hello\<close> answer 200 with a body of the single key
  \<open>message\<close>, whose value is "Hello from FastAPI Backend!" for the first and
  "Hello from the backend API!" for the second, whatever the environment and the state
  of the two collaborators.
\<close>

theorem static_routes_fixed:
  "app_get lower w ''/'' =
     Response 200 (PyDict [(ascii ''message'', PyStr (ascii ''Hello from FastAPI Backend!''))]) \<and>
   app_get lower w ''/api/hello'' =
     Response 200 (PyDict [(ascii ''message'', PyStr (ascii ''Hello from the backend API!''))])"
  by (simp add: app_get_def read_root_def hello_def)

section \<open>Properties of the database probe\<close>







text \<open>
  C9. The \<open>collections\<close> value of every \<open>GET /test\<close> response is a list of at most ten
  elements; when the handle lists its collections, it is the first ten of them.
\<close>

theorem test_collections_at_most_ten:
  assumes "status (app_get lower w ''/test'') = 200"
  shows
  "(\<exists>xs. field (app_get lower w ''/test'') ''collections'' = Some (PyList xs) \<and> length xs \<le> 10) \<and>
   field (app_get lower
            (w\<lparr>database := Inr (Some \<lparr>name_attr = Inr v, list_collection_names = Inr cs\<rparr>)\<rparr>)
            ''/test'') ''collections'' =
     Some (PyList (map PyStr (take 10 cs)))"
proof
  from status_200_returns [OF assms] obtain r where
    ec: "except_clauses (try_body (database w) initial_response) = (None, r)" and
    r: "test_database (environ w) (database w) = Inr (PyDict (check_environment (environ w) r))"
    by blast
  from ec have "\<exists>xs. map_of r (ascii ''collections'') = Some (PyList xs) \<and> length xs \<le> 10"
    by (auto simp: except_clauses_def try_body_def list_collections_def hasattr_name_def
          initial_response_def Let_def
          split: sum.splits option.splits py_exc.splits if_splits)
  then show "\<exists>xs. field (app_get lower w ''/test'') ''collections'' = Some (PyList xs) \<and>
               length xs \<le> 10"
    by (simp add: field_def app_get_test r check_environment_def)
  show "field (app_get lower
            (w\<lparr>database := Inr (Some \<lparr>name_attr = Inr v, list_collection_names = Inr cs\<rparr>)\<rparr>)
            ''/test'') ''collections'' =
     Some (PyList (map PyStr (take 10 cs)))"
    by (simp add: field_def app_get_test probe_defs initial_response_def)
qed

theorem test_collections_at_most_ten_witness:
  "status (app_get ascii_lower
     \<lparr>environ = map_of [(ascii ''DATABASE_URL'', ascii ''mongodb://db'')],
       database = Inr (Some working_db), schemas = Inr aliased_schemas\<rparr> ''/test'') = 200 \<and>
   (\<exists>xs. field (app_get ascii_lower
     \<lparr>environ = map_of [(ascii ''DATABASE_URL'', ascii ''mongodb://db'')],
       database = Inr (Some working_db), schemas = Inr aliased_schemas\<rparr> ''/test'') ''collections'' = Some (PyList xs) \<and> length xs \<le> 10)"
proof -
  have h: "status (app_get ascii_lower
     \<lparr>environ = map_of [(ascii ''DATABASE_URL'', ascii ''mongodb://db'')],
       database = Inr (Some working_db), schemas = Inr aliased_schemas\<rparr> ''/test'') = 200"
    by (simp add: app_get_test probe_defs initial_response_def working_db_def)
  from test_collections_at_most_ten [OF h] h show ?thesis by blast
qed




text \<open>
  C10. Two runs of \<open>GET /test\<close> with the same \<open>DATABASE_URL\<close> and \<open>DATABASE_NAME\<close> give
  the same \<open>database_url\<close> and \<open>database_name\<close> in their responses, whatever the two
  states of the database collaborator: the environment check at the end of the handler
  overwrites what the probe stored.
\<close>

theorem test_env_fields_independent_of_database:
  assumes "status (app_get lower w1 ''/test'') = 200"
    and "status (app_get lower w2 ''/test'') = 200"
    and "getenv (environ w1) (ascii ''DATABASE_URL'') = getenv (environ w2) (ascii ''DATABASE_URL'')"
    and "getenv (environ w1) (ascii ''DATABASE_NAME'') = getenv (environ w2) (ascii ''DATABASE_NAME'')"
  shows "field (app_get lower w1 ''/test'') ''database_url'' =
           field (app_get lower w2 ''/test'') ''database_url'' \<and>
         field (app_get lower w1 ''/test'') ''database_name'' =
           field (app_get lower w2 ''/test'') ''database_name''"
proof -
  have "field (app_get lower w ''/test'') ''database_url'' =
      Some (set_or_not (getenv (environ w) (ascii ''DATABASE_URL''))) \<and>
     field (app_get lower w ''/test'') ''database_name'' =
      Some (set_or_not (getenv (environ w) (ascii ''DATABASE_NAME'')))"
    if "status (app_get lower w ''/test'') = 200" for w
    using status_200_returns [OF that]
    by (auto simp: field_def app_get_test check_environment_def)
  with assms show ?thesis by simp
qed

theorem test_env_fields_independent_of_database_witness:
  "field (app_get ascii_lower
     \<lparr>environ = map_of [(ascii ''DATABASE_URL'', ascii ''mongodb://db'')],
       database = Inr (Some working_db), schemas = Inr aliased_schemas\<rparr> ''/test'') ''database_url'' =
   field (app_get ascii_lower
     \<lparr>environ = map_of [(ascii ''DATABASE_URL'', ascii ''mongodb://db'')],
       database = Inl (ImportError (ascii ''No module named database'')),
       schemas = Inr aliased_schemas\<rparr> ''/test'') ''database_url'' \<and>
   field (app_get ascii_lower
     \<lparr>environ = map_of [(ascii ''DATABASE_URL'', ascii ''mongodb://db'')],
       database = Inr (Some working_db), schemas = Inr aliased_schemas\<rparr> ''/test'') ''database_name'' =
   field (app_get ascii_lower
     \<lparr>environ = map_of [(ascii ''DATABASE_URL'', ascii ''mongodb://db'')],
       database = Inl (ImportError (ascii ''No module named database'')),
       schemas = Inr aliased_schemas\<rparr> ''/test'') ''database_name''"
proof -
  have h1: "status (app_get ascii_lower
     \<lparr>environ = map_of [(ascii ''DATABASE_URL'', ascii ''mongodb://db'')],
       database = Inr (Some working_db), schemas = Inr aliased_schemas\<rparr> ''/test'') = 200"
    by (simp add: app_get_test probe_defs initial_response_def working_db_def)
  have h2: "status (app_get ascii_lower
     \<lparr>environ = map_of [(ascii ''DATABASE_URL'', ascii ''mongodb://db'')],
       database = Inl (ImportError (ascii ''No module named database'')),
       schemas = Inr aliased_schemas\<rparr> ''/test'') = 200"
    by (simp add: app_get_test probe_defs initial_response_def)
  from test_env_fields_independent_of_database [OF h1 h2] show ?thesis
    by simp
qed

section \<open>Properties of the schema reflection\<close>




text \<open>
  C1. Every entry of the \<open>schemas\<close> mapping of \<open>GET /schema\<close> belongs to a member of the
  module that passes the filter; its \<open>fields\<close> list is as long as the \<open>model_fields\<close> of
  that class, and the \<open>required\<close> flag of the i-th field is true exactly when the i-th
  declared field has neither a default nor a default factory.
\<close>

theorem schema_fields_match:
  assumes "get_schema lower (Inr m) = Inr r"
    and "getitem r (ascii ''schemas'') = Some defs"
    and "getitem defs n = Some e"
  shows "\<exists>model fs. (n, Class model) \<in> set (getmembers m) \<and> is_basemodel model \<and>
           cls_module model = mod_name m \<and>
           getitem e (ascii ''fields'') = Some (PyList fs) \<and>
           length fs = length (model_fields model) \<and>
           (\<forall>i<length fs. getitem (fs ! i) (ascii ''required'') =
              Some (PyBool (default_value (snd (model_fields model ! i)) = PyUndefined \<and>
                            \<not> has_default_factory (snd (model_fields model ! i)))))"
proof -
  from schema_entry [OF assms] obtain model where
    mem: "(n, Class model) \<in> set (getmembers m)" and
    ex: "is_exposed (mod_name m) (Class model)" and
    e: "e = class_entry lower n model"
    by auto
  let ?fs = "map field_entry (model_fields model)"
  have "getitem e (ascii ''fields'') = Some (PyList ?fs)"
    by (simp add: e class_entry_def)
  moreover have "\<forall>i<length ?fs. getitem (?fs ! i) (ascii ''required'') =
              Some (PyBool (default_value (snd (model_fields model ! i)) = PyUndefined \<and>
                            \<not> has_default_factory (snd (model_fields model ! i))))"
    by (simp add: field_entry_required is_required_def)
  ultimately show ?thesis using mem ex by auto
qed

theorem schema_fields_match_witness:
  "\<exists>r defs e fs.
     get_schema ascii_lower (Inr aliased_schemas) = Inr r \<and>
     getitem r (ascii ''schemas'') = Some defs \<and>
     getitem defs (ascii ''User'') = Some e \<and>
     getitem e (ascii ''fields'') = Some (PyList fs) \<and>
     length fs = 2 \<and>
     getitem (fs ! 0) (ascii ''required'') = Some (PyBool True) \<and>
     getitem (fs ! 1) (ascii ''required'') = Some (PyBool False)"
proof -
  obtain r where r: "get_schema ascii_lower (Inr aliased_schemas) = Inr r"
    by (simp add: get_schema_def)
  obtain defs where d: "getitem r (ascii ''schemas'') = Some defs"
    using r by (auto simp: get_schema_def)
  obtain e where e: "getitem defs (ascii ''User'') = Some e"
    using r d by (auto simp: get_schema_def aliased_schemas_def user_model_def
        pydantic_BaseModel_def)
  from schema_fields_match [OF r d e] obtain model fs where
    mem: "(ascii ''User'', Class model) \<in> set (getmembers aliased_schemas)" and
    fs: "getitem e (ascii ''fields'') = Some (PyList fs)" and
    len: "length fs = length (model_fields model)" and
    req: "\<forall>i<length fs. getitem (fs ! i) (ascii ''required'') =
              Some (PyBool (default_value (snd (model_fields model ! i)) = PyUndefined \<and>
                            \<not> has_default_factory (snd (model_fields model ! i))))"
    by blast
  from mem have model: "model = user_model"
    by (simp add: aliased_schemas_def)
  have len2: "length fs = 2"
    using len by (simp add: model user_model_def)
  have "getitem (fs ! 0) (ascii ''required'') = Some (PyBool True)"
    using req len2 by (simp add: model user_model_def)
  moreover have "getitem (fs ! 1) (ascii ''required'') = Some (PyBool False)"
    using req len2 by (simp add: model user_model_def)
  ultimately show ?thesis using r d e fs len2 by blast
qed

text \<open>
  An entry is stored under the name its class is bound to in the module, and takes its
  \<open>title\<close> and \<open>collection\<close> from that name; the name of the class is not read.
\<close>

lemma schema_entry_named_by_binding:
  assumes "get_schema lower (Inr m) = Inr r"
    and "getitem r (ascii ''schemas'') = Some defs"
    and "getitem defs n = Some e"
  shows "getitem e (ascii ''title'') = Some (PyStr n) \<and>
         getitem e (ascii ''collection'') = Some (PyStr (lower n))"
proof -
  from schema_entry [OF assms] obtain model where "e = class_entry lower n model"
    by auto
  then show ?thesis by (simp add: class_entry_def)
qed

text \<open>
  C8 at \<open>aliased_schemas\<close>. The class \<open>User\<close> is exposed twice, once under each name it is
  bound to; under \<open>Account\<close> its \<open>title\<close> is "Account" and its \<open>collection\<close> "account",
  while the name of the class is "User".
\<close>

theorem aliased_class_named_by_binding:
  "cls_name user_model = ascii ''User'' \<and>
   get_schema ascii_lower (Inr aliased_schemas) =
     Inr (PyDict [(ascii ''schemas'',
            PyDict [(ascii ''Account'',
                     PyDict [(ascii ''collection'', PyStr (ascii ''account'')),
                             (ascii ''title'', PyStr (ascii ''Account'')),
                             (ascii ''fields'', PyList (map field_entry (model_fields user_model)))]),
                    (ascii ''User'',
                     PyDict [(ascii ''collection'', PyStr (ascii ''user'')),
                             (ascii ''title'', PyStr (ascii ''User'')),
                             (ascii ''fields'', PyList (map field_entry (model_fields user_model)))])])])"
  by (simp add: get_schema_def aliased_schemas_def class_entry_def setitem_def
        pydantic_BaseModel_def ascii_lower_def user_model_def ascii_def)

section \<open>Properties of the entry point\<close>

text \<open>
  C7. The port is 8000 when \<open>PORT\<close> is not set, and the integer \<open>int\<close> reads from the
  value of \<open>PORT\<close> when it is set; when \<open>int\<close> rejects the value, the entry point
  raises and there is no port.
\<close>

theorem listening_port_from_environment:
  "(getenv env (ascii ''PORT'') = None \<longrightarrow> listening_port int_of env = Inr 8000) \<and>
   (\<forall>s n. getenv env (ascii ''PORT'') = Some s \<and> int_of s = Some n \<longrightarrow>
      listening_port int_of env = Inr n) \<and>
   (\<forall>s. getenv env (ascii ''PORT'') = Some s \<and> int_of s = None \<longrightarrow>
      (\<exists>e. listening_port int_of env = Inl e))"
  by (simp add: listening_port_def)

theorem listening_port_from_environment_witness:
  "listening_port digits_value (map_of []) = Inr 8000 \<and>
   listening_port digits_value (map_of [(ascii ''PORT'', ascii ''8080'')]) = Inr 8080"
proof -
  have unset: "getenv (map_of []) (ascii ''PORT'') = None"
    by (simp add: getenv_def)
  have set: "getenv (map_of [(ascii ''PORT'', ascii ''8080'')]) (ascii ''PORT'') = Some (ascii ''8080'')"
    by (simp add: getenv_def)
  have parsed: "digits_value (ascii ''8080'') = Some 8080"
    by (simp add: digits_value_def ascii_def)
  from listening_port_from_environment [of "map_of []" digits_value] unset
  have "listening_port digits_value (map_of []) = Inr 8000"
    by blast
  moreover from listening_port_from_environment
    [of "map_of [(ascii ''PORT'', ascii ''8080'')]" digits_value] set parsed
  have "listening_port digits_value (map_of [(ascii ''PORT'', ascii ''8080'')]) = Inr 8080"
    by blast
  ultimately show ?thesis by simp
qed

end
